theory Spec2Isabelle
  imports Complex_Main "HOL-Library.Char_ord" "HOL-Library.List_Lexorder" "HOL-Library.AList"
begin

section \<open>The backup server of \<^verbatim>\<open>server.js\<close>\<close>

text \<open>
  \<^verbatim>\<open>server.js\<close> keeps two directories, \<^verbatim>\<open>temp\<close> (uploaded chunks) and
  \<^verbatim>\<open>backups\<close> (finished backup files), and serves four routes on them plus an hourly
  sweep of \<^verbatim>\<open>temp\<close>. The embedding below follows the file top to bottom: the file-system
  calls the handlers make, the built-ins of the JavaScript runtime they rely on, and then
  one HOL function per handler. Every handler is a single \<^verbatim>\<open>try { ... } catch\<close>; a thrown
  exception is a value of the sum type, and what was written or deleted before the throw
  stays in the state that the function returns.
\<close>

subsection \<open>Directories and the \<^verbatim>\<open>fs/promises\<close> calls\<close>

text \<open>
  A directory is the list of its entries in the order \<^verbatim>\<open>fs.readdir\<close> reports them; an
  entry is a regular file (content, modification time) or a subdirectory. The model
  leaves that order free, and the theorems hold for every order. Node on POSIX reports
  the names sorted byte by byte; the one place where the order decides the outcome is
  the sweep after a delete has failed, and the states that exemplify it are listed in
  byte order. Times are milliseconds since the epoch: \<^verbatim>\<open>Date.now()\<close> is integral,
  \<^verbatim>\<open>stats.mtimeMs\<close> may have a fractional part. \<^verbatim>\<open>path.join(dir, name)\<close> is the entry
  \<open>name\<close> of \<open>dir\<close>: names are single path segments, and a request whose ids contain
  path separators is outside this model. Both directories exist (the server creates them
  at start), so \<^verbatim>\<open>fs.readdir\<close> does not fail. A call fails with \<^verbatim>\<open>ENOENT\<close> on a missing
  entry and with \<^verbatim>\<open>EISDIR\<close> where it needs a regular file and finds a directory
  (\<^verbatim>\<open>unlink\<close> reports that as \<^verbatim>\<open>EPERM\<close> on some systems; the handlers do not look at the code).
\<close>

datatype node = is_File: File (content: string) (mtimeMs: rat) | Dir (mtimeMs: rat)

type_synonym directory = "(string \<times> node) list"

datatype errno = ENOENT | EISDIR

record fsys =
  tempDir :: directory
  backupsDir :: directory

definition readdir :: "directory \<Rightarrow> string list" where
  "readdir d = map fst d"

definition stat :: "directory \<Rightarrow> string \<Rightarrow> errno + node" where
  "stat d name = (case map_of d name of None \<Rightarrow> Inl ENOENT | Some n \<Rightarrow> Inr n)"

definition unlink :: "directory \<Rightarrow> string \<Rightarrow> errno + directory" where
  "unlink d name =
     (case map_of d name of
        None \<Rightarrow> Inl ENOENT
      | Some (Dir m) \<Rightarrow> Inl EISDIR
      | Some (File c m) \<Rightarrow> Inr (AList.delete name d))"

definition readFile :: "directory \<Rightarrow> string \<Rightarrow> errno + string" where
  "readFile d name =
     (case map_of d name of
        None \<Rightarrow> Inl ENOENT
      | Some (Dir m) \<Rightarrow> Inl EISDIR
      | Some (File c m) \<Rightarrow> Inr c)"

text \<open>\<^verbatim>\<open>fs.writeFile\<close> creates the file or replaces its content; the clock gives the new
  modification time. In the list a new file comes after the entries that were there;
  no handler's answer after a write depends on that position.\<close>

definition writeFile :: "int \<Rightarrow> directory \<Rightarrow> string \<Rightarrow> string \<Rightarrow> errno + directory" where
  "writeFile now d name text =
     (case map_of d name of
        Some (Dir m) \<Rightarrow> Inl EISDIR
      | _ \<Rightarrow> Inr (AList.update name (File text (of_int now)) d))"

subsection \<open>Built-ins of the runtime\<close>

text \<open>
  The handlers call \<^verbatim>\<open>JSON.parse\<close>, \<^verbatim>\<open>JSON.stringify(data, null, 2)\<close>, \<^verbatim>\<open>new Date(v)\<close>,
  \<^verbatim>\<open>Date.prototype.toISOString\<close> and the string conversion of a template literal. They are
  not code of this server, so the handlers take them as a record of functions: \<open>'j\<close> is the
  type of parsed documents, \<open>'n\<close> the type of the scalar request fields (\<^verbatim>\<open>timestamp\<close>,
  \<^verbatim>\<open>index\<close>, \<^verbatim>\<open>total\<close>). \<open>JSON_parse\<close> is \<open>None\<close> where \<^verbatim>\<open>JSON.parse\<close> throws a
  \<^verbatim>\<open>SyntaxError\<close>; \<open>Date_new\<close> is \<open>None\<close> where \<^verbatim>\<open>new Date(v)\<close> is an invalid date, on
  which \<^verbatim>\<open>toISOString\<close> throws a \<^verbatim>\<open>RangeError\<close>.
\<close>

record ('j, 'n) runtime =
  JSON_parse :: "string \<Rightarrow> 'j option"
  JSON_stringify :: "'j \<Rightarrow> string"
  Date_new :: "'n \<Rightarrow> int option"
  toISOString :: "int \<Rightarrow> string"
  String :: "'n \<Rightarrow> string"

text \<open>\<^verbatim>\<open>s.replace(/[:.]/g, '-')\<close> and \<^verbatim>\<open>s.endsWith(suffix)\<close>.\<close>

definition replace_colon_dot :: "string \<Rightarrow> string" where
  "replace_colon_dot s = map (\<lambda>c. if c = CHR '':'' \<or> c = CHR ''.'' then CHR ''-'' else c) s"


subsection \<open>Responses\<close>

text \<open>Every route answers with a status and the envelope
  \<^verbatim>\<open>{ success, message?, chunkId?, data? }\<close>; an absent field is \<open>None\<close>.\<close>

record 'j response =
  status :: nat
  success :: bool
  message :: "string option"
  chunkId :: "string option"
  data :: "'j option"

definition json_message :: "nat \<Rightarrow> bool \<Rightarrow> string \<Rightarrow> 'j response" where
  "json_message st ok msg =
     \<lparr>status = st, success = ok, message = Some msg, chunkId = None, data = None\<rparr>"

definition json_chunkId :: "string \<Rightarrow> 'j response" where
  "json_chunkId cid =
     \<lparr>status = 200, success = True, message = None, chunkId = Some cid, data = None\<rparr>"


subsection \<open>The sweep of the temp directory\<close>

definition oneHour :: rat where
  "oneHour = 60 * 60 * 1000"

text \<open>The body of \<^verbatim>\<open>for (const file of files)\<close>: \<open>Some e\<close> is the exception that left
  the loop, which the \<^verbatim>\<open>catch\<close> around the loop logs.\<close>

fun cleanupLoop :: "int \<Rightarrow> directory \<Rightarrow> string list \<Rightarrow> directory \<times> errno option" where
  "cleanupLoop now d [] = (d, None)"
| "cleanupLoop now d (file # files) =
     (case stat d file of
        Inl e \<Rightarrow> (d, Some e)
      | Inr stats \<Rightarrow>
          if of_int now - mtimeMs stats > oneHour then
            (case unlink d file of
               Inl e \<Rightarrow> (d, Some e)
             | Inr d' \<Rightarrow> cleanupLoop now d' files)
          else cleanupLoop now d files)"

definition cleanupTempFiles :: "int \<Rightarrow> fsys \<Rightarrow> fsys \<times> errno option" where
  "cleanupTempFiles now fs =
     (case cleanupLoop now (tempDir fs) (readdir (tempDir fs)) of
        (d', logged) \<Rightarrow> (fs\<lparr>tempDir := d'\<rparr>, logged))"

subsection \<open>\<^verbatim>\<open>POST /api/backup/chunk\<close>\<close>

text \<open>The body \<^verbatim>\<open>{ chunk, index, total, timestamp }\<close>. The chunk is text, the only kind of
  JSON value \<^verbatim>\<open>fs.writeFile\<close> accepts as data; \<^verbatim>\<open>total\<close> is destructured and never
  used.\<close>

record 'n chunk_request =
  chunk :: string
  index :: 'n
  total :: 'n
  timestamp :: 'n

definition chunkId_of :: "('j, 'n) runtime \<Rightarrow> 'n chunk_request \<Rightarrow> string" where
  "chunkId_of rt req = ''chunk_'' @ String rt (timestamp req) @ ''_'' @ String rt (index req)"

definition post_backup_chunk ::
  "('j, 'n) runtime \<Rightarrow> int \<Rightarrow> fsys \<Rightarrow> 'n chunk_request \<Rightarrow> fsys \<times> 'j response" where
  "post_backup_chunk rt now fs req =
     (case writeFile now (tempDir fs) (chunkId_of rt req) (chunk req) of
        Inl e \<Rightarrow> (fs, json_message 500 False ''Failed to save chunk'')
      | Inr d' \<Rightarrow> (fs\<lparr>tempDir := d'\<rparr>, json_chunkId (chunkId_of rt req)))"

subsection \<open>\<^verbatim>\<open>POST /api/backup/combine\<close>\<close>

text \<open>The body \<^verbatim>\<open>{ chunkIds, timestamp }\<close>.\<close>

record 'n combine_request =
  chunkIds :: "string list"
  combine_timestamp :: 'n

text \<open>The loop \<^verbatim>\<open>for (const chunkId of chunkIds)\<close>, with \<open>combinedData\<close> as accumulator.\<close>

fun combineLoop :: "directory \<Rightarrow> string list \<Rightarrow> string \<Rightarrow> directory \<times> (errno + string)" where
  "combineLoop d [] combinedData = (d, Inr combinedData)"
| "combineLoop d (cid # cids) combinedData =
     (case readFile d cid of
        Inl e \<Rightarrow> (d, Inl e)
      | Inr chunkText \<Rightarrow>
          (case unlink d cid of
             Inl e \<Rightarrow> (d, Inl e)
           | Inr d' \<Rightarrow> combineLoop d' cids (combinedData @ chunkText)))"

definition backup_filename :: "string \<Rightarrow> string" where
  "backup_filename isoText = ''backup_'' @ replace_colon_dot isoText @ ''.json''"

definition post_backup_combine ::
  "('j, 'n) runtime \<Rightarrow> int \<Rightarrow> fsys \<Rightarrow> 'n combine_request \<Rightarrow> fsys \<times> 'j response" where
  "post_backup_combine rt now fs req =
     (case combineLoop (tempDir fs) (chunkIds req) [] of
        (d', Inl e) \<Rightarrow> (fs\<lparr>tempDir := d'\<rparr>, json_message 500 False ''Failed to combine chunks'')
      | (d', Inr combinedData) \<Rightarrow>
          (case JSON_parse rt combinedData of
             None \<Rightarrow> (fs\<lparr>tempDir := d'\<rparr>, json_message 500 False ''Failed to combine chunks'')
           | Some doc \<Rightarrow>
               (case Date_new rt (combine_timestamp req) of
                  None \<Rightarrow>
                    (fs\<lparr>tempDir := d'\<rparr>, json_message 500 False ''Failed to combine chunks'')
                | Some t \<Rightarrow>
                    (case writeFile now (backupsDir fs)
                            (backup_filename (toISOString rt t)) (JSON_stringify rt doc) of
                       Inl e \<Rightarrow>
                         (fs\<lparr>tempDir := d'\<rparr>,
                          json_message 500 False ''Failed to combine chunks'')
                     | Inr b' \<Rightarrow>
                         (fs\<lparr>tempDir := d', backupsDir := b'\<rparr>,
                          json_message 200 True ''Backup saved successfully'')))))"

subsection \<open>\<^verbatim>\<open>POST /api/backup\<close>\<close>


subsection \<open>\<^verbatim>\<open>GET /api/backup\<close>\<close>



section \<open>An instance of the runtime\<close>

text \<open>
  To run the handlers on concrete requests the built-ins need values. This instance is
  made for the runs in this theory and is not a model of Node. On what those runs use it
  gives Node's results: documents built from \<^verbatim>\<open>null\<close>, booleans, integers below 2^53 in
  magnitude, ASCII strings, arrays, and objects whose keys are distinct and not array
  indices; texts of such documents, well-formed or truncated; timestamps and indices that
  are integers below 2^53 in magnitude, for which \<^verbatim>\<open>new Date(v)\<close> is valid up to 8.64e15
  milliseconds either side of the epoch and \<^verbatim>\<open>toISOString\<close> is the proleptic Gregorian
  date in UTC. Elsewhere it differs from Node: \<open>json_parse\<close> rejects fractions, exponents
  and escaped code units above \<^verbatim>\<open>00ff\<close>, which \<^verbatim>\<open>JSON.parse\<close> accepts; it reads \<^verbatim>\<open>-0\<close> as
  0; it keeps object members in the order of the text, where Node moves index-like keys
  to the front; \<open>show_int\<close> prints every digit of an integer that Node would round or
  print with an exponent. General theorems do not mention the instance.
\<close>

datatype json =
  JNull | JBool bool | JNum int | JStr string | JArr "json list" | JObj "(string \<times> json) list"

function show_digits :: "int \<Rightarrow> string" where
  "show_digits n =
     (if n < 10 then [''0123456789'' ! nat n]
      else show_digits (n div 10) @ [''0123456789'' ! nat (n mod 10)])"
  by pat_completeness auto
termination
  by (relation "measure nat") auto

declare show_digits.simps [simp del]

definition show_int :: "int \<Rightarrow> string" where
  "show_int i = (if i < 0 then CHR ''-'' # show_digits (- i) else show_digits i)"

definition pad_left :: "nat \<Rightarrow> string \<Rightarrow> string" where
  "pad_left w s = replicate (w - length s) CHR ''0'' @ s"

definition iso_string :: "int \<Rightarrow> string" where
  "iso_string t =
     (let days = t div 86400000; ms = t mod 86400000;
          z = days + 719468; era = z div 146097; doe = z - era * 146097;
          yoe = (doe - doe div 1460 + doe div 36524 - doe div 146096) div 365;
          doy = doe - (365 * yoe + yoe div 4 - yoe div 100);
          mp = (5 * doy + 2) div 153;
          dd = doy - (153 * mp + 2) div 5 + 1;
          mm = (if mp < 10 then mp + 3 else mp - 9);
          yy = yoe + era * 400 + (if mm \<le> 2 then 1 else 0);
          year = (if 0 \<le> yy \<and> yy \<le> 9999 then pad_left 4 (show_digits yy)
                  else (if yy < 0 then ''-'' else ''+'') @ pad_left 6 (show_digits \<bar>yy\<bar>))
      in year @ ''-'' @ pad_left 2 (show_digits mm) @ ''-'' @ pad_left 2 (show_digits dd)
         @ ''T'' @ pad_left 2 (show_digits (ms div 3600000))
         @ '':'' @ pad_left 2 (show_digits (ms div 60000 mod 60))
         @ '':'' @ pad_left 2 (show_digits (ms div 1000 mod 60))
         @ ''.'' @ pad_left 3 (show_digits (ms mod 1000)) @ ''Z'')"

definition hex_char :: "nat \<Rightarrow> char" where
  "hex_char d = ''0123456789abcdef'' ! d"

definition escape_char :: "char \<Rightarrow> string" where
  "escape_char c =
     (if c = CHR 0x22 then [CHR 0x5C, CHR 0x22]
      else if c = CHR 0x5C then [CHR 0x5C, CHR 0x5C]
      else if c = CHR 0x08 then [CHR 0x5C, CHR ''b'']
      else if c = CHR 0x0C then [CHR 0x5C, CHR ''f'']
      else if c = CHR 0x0A then [CHR 0x5C, CHR ''n'']
      else if c = CHR 0x0D then [CHR 0x5C, CHR ''r'']
      else if c = CHR 0x09 then [CHR 0x5C, CHR ''t'']
      else if of_char c < (32::nat) then
        [CHR 0x5C, CHR ''u'', CHR ''0'', CHR ''0'',
         hex_char (of_char c div 16), hex_char (of_char c mod 16)]
      else [c])"

definition quote :: "string \<Rightarrow> string" where
  "quote s = CHR 0x22 # concat (map escape_char s) @ [CHR 0x22]"

definition indent :: "nat \<Rightarrow> string" where
  "indent lvl = replicate (2 * lvl) CHR '' ''"

fun join_lines :: "string list \<Rightarrow> string" where
  "join_lines [] = []"
| "join_lines [x] = x"
| "join_lines (x # y # ys) = x @ CHR '','' # CHR 0x0A # join_lines (y # ys)"

fun stringify_at :: "nat \<Rightarrow> json \<Rightarrow> string" where
  "stringify_at lvl JNull = ''null''"
| "stringify_at lvl (JBool b) = (if b then ''true'' else ''false'')"
| "stringify_at lvl (JNum i) = show_int i"
| "stringify_at lvl (JStr s) = quote s"
| "stringify_at lvl (JArr vs) =
     (if vs = [] then ''[]''
      else CHR ''['' # CHR 0x0A #
           join_lines (map (\<lambda>v. indent (Suc lvl) @ stringify_at (Suc lvl) v) vs)
           @ CHR 0x0A # indent lvl @ '']'')"
| "stringify_at lvl (JObj kvs) =
     (if kvs = [] then ''{}''
      else CHR ''{'' # CHR 0x0A #
           join_lines (map (\<lambda>kv. indent (Suc lvl) @ quote (fst kv) @ '': ''
                                  @ stringify_at (Suc lvl) (snd kv)) kvs)
           @ CHR 0x0A # indent lvl @ ''}'')"

definition is_ws :: "char \<Rightarrow> bool" where
  "is_ws c = (c = CHR '' '' \<or> c = CHR 0x0A \<or> c = CHR 0x0D \<or> c = CHR 0x09)"

definition skip_ws :: "string \<Rightarrow> string" where
  "skip_ws s = dropWhile is_ws s"

definition is_digit :: "char \<Rightarrow> bool" where
  "is_digit c = (CHR ''0'' \<le> c \<and> c \<le> CHR ''9'')"

definition digits_value :: "string \<Rightarrow> int" where
  "digits_value ds = foldl (\<lambda>a c. 10 * a + (int (of_char c) - 48)) 0 ds"

definition starts :: "string \<Rightarrow> string \<Rightarrow> bool" where
  "starts s p = (take (length p) s = p)"

text \<open>An integer literal: an optional minus sign, then \<open>0\<close> or a non-zero digit
  followed by digits; a fraction or an exponent after it is outside this fragment.\<close>

definition parse_number :: "string \<Rightarrow> (json \<times> string) option" where
  "parse_number s =
     (let neg = starts s ''-'';
          body = (if neg then tl s else s);
          ds = takeWhile is_digit body;
          rest = dropWhile is_digit body
      in if ds = [] \<or> (hd ds = CHR ''0'' \<and> length ds > 1) then None
         else if starts rest ''.'' \<or> starts rest ''e'' \<or> starts rest ''E'' then None
         else Some (JNum (if neg then - digits_value ds else digits_value ds), rest))"

definition hex_value :: "char \<Rightarrow> nat option" where
  "hex_value c =
     (if is_digit c then Some (of_char c - 48)
      else if CHR ''a'' \<le> c \<and> c \<le> CHR ''f'' then Some (of_char c - 87)
      else if CHR ''A'' \<le> c \<and> c \<le> CHR ''F'' then Some (of_char c - 55)
      else None)"

text \<open>The characters of a string literal after the opening quote, up to the closing one.\<close>

fun parse_chars :: "string \<Rightarrow> string \<Rightarrow> (string \<times> string) option" where
  "parse_chars acc [] = None"
| "parse_chars acc (c # s) =
     (if c = CHR 0x22 then Some (acc, s)
      else if of_char c < (32::nat) then None
      else if c \<noteq> CHR 0x5C then parse_chars (acc @ [c]) s
      else (case s of
              [] \<Rightarrow> None
            | e # s' \<Rightarrow>
                if e = CHR 0x22 \<or> e = CHR 0x5C \<or> e = CHR ''/'' then parse_chars (acc @ [e]) s'
                else if e = CHR ''b'' then parse_chars (acc @ [CHR 0x08]) s'
                else if e = CHR ''f'' then parse_chars (acc @ [CHR 0x0C]) s'
                else if e = CHR ''n'' then parse_chars (acc @ [CHR 0x0A]) s'
                else if e = CHR ''r'' then parse_chars (acc @ [CHR 0x0D]) s'
                else if e = CHR ''t'' then parse_chars (acc @ [CHR 0x09]) s'
                else if e = CHR ''u'' then
                  (case s' of
                     h1 # h2 # h3 # h4 # s'' \<Rightarrow>
                       (case (hex_value h1, hex_value h2, hex_value h3, hex_value h4) of
                          (Some 0, Some 0, Some a, Some b) \<Rightarrow>
                            parse_chars (acc @ [char_of (16 * a + b)]) s''
                        | _ \<Rightarrow> None)
                   | _ \<Rightarrow> None)
                else None))"

fun parse_value :: "nat \<Rightarrow> string \<Rightarrow> (json \<times> string) option"
and parse_elements :: "nat \<Rightarrow> json list \<Rightarrow> string \<Rightarrow> (json \<times> string) option"
and parse_members :: "nat \<Rightarrow> (string \<times> json) list \<Rightarrow> string \<Rightarrow> (json \<times> string) option"
where
  "parse_value 0 s = None"
| "parse_value (Suc k) s =
     (case skip_ws s of
        [] \<Rightarrow> None
      | c # r \<Rightarrow>
          if c = CHR ''n'' then (if starts r ''ull'' then Some (JNull, drop 3 r) else None)
          else if c = CHR ''t'' then
            (if starts r ''rue'' then Some (JBool True, drop 3 r) else None)
          else if c = CHR ''f'' then
            (if starts r ''alse'' then Some (JBool False, drop 4 r) else None)
          else if c = CHR 0x22 then
            (case parse_chars [] r of None \<Rightarrow> None | Some (str, r') \<Rightarrow> Some (JStr str, r'))
          else if c = CHR ''['' then
            (if starts (skip_ws r) '']'' then Some (JArr [], tl (skip_ws r))
             else parse_elements k [] r)
          else if c = CHR ''{'' then
            (if starts (skip_ws r) ''}'' then Some (JObj [], tl (skip_ws r))
             else parse_members k [] r)
          else parse_number (c # r))"
| "parse_elements 0 acc s = None"
| "parse_elements (Suc k) acc s =
     (case parse_value k s of
        None \<Rightarrow> None
      | Some (v, r) \<Rightarrow>
          if starts (skip_ws r) '','' then parse_elements k (acc @ [v]) (tl (skip_ws r))
          else if starts (skip_ws r) '']'' then Some (JArr (acc @ [v]), tl (skip_ws r))
          else None)"
| "parse_members 0 acc s = None"
| "parse_members (Suc k) acc s =
     (if \<not> starts (skip_ws s) [CHR 0x22] then None
      else
        (case parse_chars [] (tl (skip_ws s)) of
           None \<Rightarrow> None
         | Some (key, r) \<Rightarrow>
             if \<not> starts (skip_ws r) '':'' then None
             else
               (case parse_value k (tl (skip_ws r)) of
                  None \<Rightarrow> None
                | Some (v, r') \<Rightarrow>
                    if starts (skip_ws r') '','' then
                      parse_members k (AList.update key v acc) (tl (skip_ws r'))
                    else if starts (skip_ws r') ''}'' then
                      Some (JObj (AList.update key v acc), tl (skip_ws r'))
                    else None)))"

definition json_parse :: "string \<Rightarrow> json option" where
  "json_parse s =
     (case parse_value (2 * length s + 2) s of
        None \<Rightarrow> None
      | Some (v, r) \<Rightarrow> if skip_ws r = [] then Some v else None)"

definition node_runtime :: "(json, int) runtime" where
  "node_runtime =
     \<lparr>JSON_parse = json_parse,
      JSON_stringify = stringify_at 0,
      Date_new = (\<lambda>v. if \<bar>v\<bar> \<le> 8640000000000000 then Some v else None),
      toISOString = iso_string,
      String = show_int\<rparr>"

section \<open>Example states\<close>

text \<open>States and requests on which the theorems below are run.\<close>

definition no_files :: fsys where
  "no_files = \<lparr>tempDir = [], backupsDir = []\<rparr>"

text \<open>Two chunks of one upload, the second stored 1.9 hours after the first.\<close>

definition two_chunks :: fsys where
  "two_chunks =
     fst (post_backup_chunk node_runtime 1700006840000
            (fst (post_backup_chunk node_runtime 1700000000000 no_files
                    \<lparr>chunk = ''[1,'', index = 0, total = 2, timestamp = 1700000000000\<rparr>))
            \<lparr>chunk = ''2]'', index = 1, total = 2, timestamp = 1700000000000\<rparr>)"

text \<open>Temp directories that hold an old subdirectory beside old chunks, each listed in
  byte order: \<^verbatim>\<open>archive\<close> sorts before every \<^verbatim>\<open>chunk_\<close> name, and
  \<^verbatim>\<open>chunk_1700000000000_0.parts\<close> sorts between the chunks 0 and 1 of that upload.\<close>

definition archive_before_chunk :: fsys where
  "archive_before_chunk =
     \<lparr>tempDir = [(''archive'', Dir 1700000000000),
                 (''chunk_1700000000000_0'', File ''[1,2]'' 1700000000000)],
      backupsDir = []\<rparr>"

definition archive_before_chunks :: fsys where
  "archive_before_chunks =
     \<lparr>tempDir = [(''archive'', Dir 1700000000000),
                 (''chunk_1700000000000_0'', File ''[1,'' 1700000000000),
                 (''chunk_1700000000000_1'', File ''2]'' 1700000001000)],
      backupsDir = []\<rparr>"

definition parts_between_chunks :: fsys where
  "parts_between_chunks =
     \<lparr>tempDir = [(''chunk_1700000000000_0'', File ''[1,'' 1700000000000),
                 (''chunk_1700000000000_0.parts'', Dir 1700000000000),
                 (''chunk_1700000000000_1'', File ''2]'' 1700000000000)],
      backupsDir = []\<rparr>"



text \<open>A backup dated 2100, written through the API by a combine whose request carries that
  timestamp.\<close>

definition future_backup :: fsys where
  "future_backup =
     fst (post_backup_combine node_runtime 1700000001000
            (fst (post_backup_chunk node_runtime 1700000000000 no_files
                    \<lparr>chunk = ''null'', index = 0, total = 1, timestamp = 4102444800000\<rparr>))
            \<lparr>chunkIds = [''chunk_4102444800000_0''], combine_timestamp = 4102444800000\<rparr>)"


text \<open>Chunks whose concatenation \<^verbatim>\<open>[1,2\<close> is not JSON, beside a chunk of another upload
  and an earlier backup.\<close>

definition broken_chunks :: fsys where
  "broken_chunks =
     \<lparr>tempDir = [(''chunk_1700000000000_0'', File ''[1,'' 1700000000000),
                 (''chunk_1700000000000_1'', File ''2'' 1700000001000),
                 (''chunk_1700000009999_0'', File ''{}'' 1700000002000)],
      backupsDir = [(''backup_2023-11-14T22-13-20-000Z.json'', File ''[]'' 1700000000000)]\<rparr>"

section \<open>Properties\<close>

subsection \<open>Facts about the file-system calls\<close>

lemma delete_as_filter: "AList.delete k d = filter (\<lambda>p. fst p \<noteq> k) d"
  by (induction d) (auto simp: AList.delete_eq)

lemma map_of_entry:
  "distinct (map fst d) \<Longrightarrow> (n, e) \<in> set d \<Longrightarrow> map_of d n = Some e"
  by simp

lemma stat_entry:
  "distinct (map fst d) \<Longrightarrow> (n, e) \<in> set d \<Longrightarrow> stat d n = Inr e"
  by (simp add: stat_def)

lemma unlink_File:
  "map_of d n = Some (File c m) \<Longrightarrow> unlink d n = Inr (filter (\<lambda>p. fst p \<noteq> n) d)"
  by (simp add: unlink_def delete_as_filter)

lemma unlink_Dir: "map_of d n = Some (Dir m) \<Longrightarrow> unlink d n = Inl EISDIR"
  by (simp add: unlink_def)

lemma unlink_result:
  "unlink d n = Inr d' \<Longrightarrow> d' = filter (\<lambda>p. fst p \<noteq> n) d"
  by (auto simp: unlink_def delete_as_filter split: option.splits node.splits)

lemma distinct_filter_keys:
  "distinct (map fst d) \<Longrightarrow> distinct (map fst (filter P d))"
  by (induction d) auto

subsection \<open>The sweep\<close>

lemma cleanupLoop_keeps:
  "distinct (map fst d) \<Longrightarrow> (n, e) \<in> set d \<Longrightarrow> \<not> of_int now - mtimeMs e > oneHour \<Longrightarrow>
   (n, e) \<in> set (fst (cleanupLoop now d files))"
proof (induction files arbitrary: d)
  case Nil
  then show ?case by simp
next
  case (Cons name names)
  show ?case
  proof (cases "stat d name")
    case (Inl err)
    then show ?thesis using Cons.prems by simp
  next
    case (Inr stats)
    show ?thesis
    proof (cases "of_int now - mtimeMs stats > oneHour")
      case False
      then show ?thesis using Inr Cons by simp
    next
      case True
      show ?thesis
      proof (cases "unlink d name")
        case (Inl err)
        then show ?thesis using Inr True Cons.prems by simp
      next
        case unl: (Inr d')
        have d': "d' = filter (\<lambda>p. fst p \<noteq> name) d"
          using unl by (rule unlink_result)
        have "n \<noteq> name"
        proof
          assume "n = name"
          then have "stat d name = Inr e"
            using Cons.prems by (simp add: stat_entry)
          then show False using Inr True Cons.prems by simp
        qed
        then have "(n, e) \<in> set d'" using Cons.prems d' by simp
        moreover have "distinct (map fst d')"
          using Cons.prems d' by (simp add: distinct_filter_keys)
        ultimately have "(n, e) \<in> set (fst (cleanupLoop now d' names))"
          using Cons.IH Cons.prems by blast
        then show ?thesis using Inr True unl by simp
      qed
    qed
  qed
qed

lemma cleanupLoop_all:
  "distinct (map fst d) \<Longrightarrow> distinct files \<Longrightarrow> set files \<subseteq> fst ` set d \<Longrightarrow>
   (\<forall>(n, e) \<in> set d. n \<in> set files \<longrightarrow> of_int now - mtimeMs e > oneHour \<longrightarrow> is_File e) \<Longrightarrow>
   cleanupLoop now d files =
     (filter (\<lambda>(n, e). \<not> (n \<in> set files \<and> of_int now - mtimeMs e > oneHour)) d, None)"
proof (induction files arbitrary: d)
  case Nil
  then show ?case by simp
next
  case (Cons name names)
  from Cons.prems obtain e where e: "(name, e) \<in> set d" by auto
  then have mo: "map_of d name = Some e" using Cons.prems by simp
  then have st: "stat d name = Inr e" by (simp add: stat_def)
  have uniq: "\<And>e'. (name, e') \<in> set d \<Longrightarrow> e' = e"
    using mo Cons.prems(1) by (metis map_of_entry option.inject)
  show ?case
  proof (cases "of_int now - mtimeMs e > oneHour")
    case False
    have "cleanupLoop now d names =
      (filter (\<lambda>(n, e). \<not> (n \<in> set names \<and> of_int now - mtimeMs e > oneHour)) d, None)"
      using Cons.prems by (intro Cons.IH) auto
    moreover have "filter (\<lambda>(n, e). \<not> (n \<in> set names \<and> of_int now - mtimeMs e > oneHour)) d
      = filter (\<lambda>(n, e). \<not> (n \<in> set (name # names) \<and> of_int now - mtimeMs e > oneHour)) d"
      using False uniq by (intro filter_cong) auto
    ultimately show ?thesis using st False by simp
  next
    case True
    then have "is_File e" using Cons.prems e by auto
    then obtain c m where "e = File c m" by (cases e) auto
    then have unl: "unlink d name = Inr (filter (\<lambda>p. fst p \<noteq> name) d)"
      using mo by (simp add: unlink_File)
    let ?d' = "filter (\<lambda>p. fst p \<noteq> name) d"
    have "cleanupLoop now ?d' names =
      (filter (\<lambda>(n, e). \<not> (n \<in> set names \<and> of_int now - mtimeMs e > oneHour)) ?d', None)"
    proof (intro Cons.IH)
      show "distinct (map fst ?d')" using Cons.prems by (simp add: distinct_filter_keys)
      show "distinct names" using Cons.prems by simp
      show "set names \<subseteq> fst ` set ?d'" using Cons.prems by force
      show "\<forall>(n, e)\<in>set ?d'. n \<in> set names \<longrightarrow> of_int now - mtimeMs e > oneHour \<longrightarrow> is_File e"
        using Cons.prems by auto
    qed
    moreover have "filter (\<lambda>(n, e). \<not> (n \<in> set names \<and> of_int now - mtimeMs e > oneHour)) ?d'
      = filter (\<lambda>(n, e). \<not> (n \<in> set (name # names) \<and> of_int now - mtimeMs e > oneHour)) d"
      unfolding filter_filter using True uniq by (intro filter_cong) auto
    ultimately show ?thesis using st True unl by simp
  qed
qed

lemma cleanupLoop_append:
  "cleanupLoop now d (xs @ ys) =
     (case cleanupLoop now d xs of
        (d', None) \<Rightarrow> cleanupLoop now d' ys
      | (d', Some e) \<Rightarrow> (d', Some e))"
  by (induction xs arbitrary: d) (auto split: sum.splits)

lemma two_chunks_eq:
  "two_chunks =
     \<lparr>tempDir = [(''chunk_1700000000000_0'', File ''[1,'' 1700000000000),
                 (''chunk_1700000000000_1'', File ''2]'' 1700006840000)],
      backupsDir = []\<rparr>"
  by code_simp

subsection \<open>The sweep: what is deleted and what is kept\<close>

text \<open>
  The claim C7 speaks of each run and every entry. It fails when a delete fails: here
  the subdirectory \<^verbatim>\<open>archive\<close> is listed first, \<^verbatim>\<open>fs.unlink\<close> throws on it, and the run
  ends with the chunk listed after it still in place, although that chunk is two hours
  old.
\<close>

theorem sweep_deletes_stale_counterexample:
  "sorted (readdir (tempDir archive_before_chunk)) \<and>
   of_int 1700007200000 - mtimeMs (File ''[1,2]'' 1700000000000) > oneHour \<and>
   (''chunk_1700000000000_0'', File ''[1,2]'' 1700000000000)
      \<in> set (tempDir (fst (cleanupTempFiles 1700007200000 archive_before_chunk)))"
  by code_simp

text \<open>
  C7, as the code has it. A run of \<open>cleanupTempFiles\<close> in which no delete fails, every
  entry older than one hour being a regular file, deletes every entry of the temp
  directory whose age, the clock minus its modification time, exceeds one hour, and
  leaves every other entry as it was, in content, modification time and position. The
  run logs nothing. On the example, a chunk written at \<open>T0\<close> is gone after the run at
  \<open>T0\<close> + 2 h and a chunk written at \<open>T0\<close> + 1.9 h is still there.
\<close>

theorem sweep_deletes_stale_keeps_fresh:
  assumes "distinct (map fst (tempDir fs))"
      and "\<forall>(n, e) \<in> set (tempDir fs). of_int now - mtimeMs e > oneHour \<longrightarrow> is_File e"
  shows "cleanupTempFiles now fs =
           (fs\<lparr>tempDir := filter (\<lambda>(n, e). \<not> of_int now - mtimeMs e > oneHour) (tempDir fs)\<rparr>,
            None)"
proof -
  let ?d = "tempDir fs"
  have "cleanupLoop now ?d (readdir ?d) =
     (filter (\<lambda>(n, e). \<not> (n \<in> set (readdir ?d) \<and> of_int now - mtimeMs e > oneHour)) ?d, None)"
    using assms by (intro cleanupLoop_all) (auto simp: readdir_def)
  moreover have "filter (\<lambda>(n, e). \<not> (n \<in> set (readdir ?d) \<and> of_int now - mtimeMs e > oneHour)) ?d
      = filter (\<lambda>(n, e). \<not> of_int now - mtimeMs e > oneHour) ?d"
    by (intro filter_cong) (force simp: readdir_def)+
  ultimately show ?thesis by (simp add: cleanupTempFiles_def)
qed

theorem sweep_deletes_stale_keeps_fresh_witness:
  "distinct (map fst (tempDir two_chunks)) \<and>
   cleanupTempFiles 1700007200000 two_chunks =
     (two_chunks\<lparr>tempDir := [(''chunk_1700000000000_1'', File ''2]'' 1700006840000)]\<rparr>, None)"
  using sweep_deletes_stale_keeps_fresh [of two_chunks 1700007200000]
  by (simp add: two_chunks_eq oneHour_def)

text \<open>
  C10. The test \<^verbatim>\<open>now - stats.mtimeMs > oneHour\<close> is strict. An entry whose age is exactly
  3,600,000 ms is still in the temp directory after the run, whatever else the run meets;
  and an entry that the run removed was strictly older than one hour.
\<close>

theorem sweep_threshold_is_strict:
  assumes "distinct (map fst (tempDir fs))" and "(name, entry) \<in> set (tempDir fs)"
  shows "(of_int now - mtimeMs entry = oneHour \<longrightarrow>
            (name, entry) \<in> set (tempDir (fst (cleanupTempFiles now fs)))) \<and>
         ((name, entry) \<notin> set (tempDir (fst (cleanupTempFiles now fs))) \<longrightarrow>
            of_int now - mtimeMs entry > oneHour)"
proof -
  have keep: "\<not> of_int now - mtimeMs entry > oneHour \<Longrightarrow>
      (name, entry) \<in> set (tempDir (fst (cleanupTempFiles now fs)))"
    using cleanupLoop_keeps [OF assms, of now "readdir (tempDir fs)"]
    by (cases "cleanupLoop now (tempDir fs) (readdir (tempDir fs))")
       (simp add: cleanupTempFiles_def)
  show ?thesis using keep by auto
qed

theorem sweep_threshold_is_strict_witness:
  "distinct (map fst (tempDir two_chunks)) \<and>
   (''chunk_1700000000000_0'', File ''[1,'' 1700000000000) \<in> set (tempDir two_chunks) \<and>
   of_int 1700003600000 - mtimeMs (File ''[1,'' 1700000000000) = oneHour \<and>
   (''chunk_1700000000000_0'', File ''[1,'' 1700000000000)
      \<in> set (tempDir (fst (cleanupTempFiles 1700003600000 two_chunks))) \<and>
   (''chunk_1700000000000_0'', File ''[1,'' 1700000000000)
      \<notin> set (tempDir (fst (cleanupTempFiles 1700003600001 two_chunks)))"
proof -
  have "(''chunk_1700000000000_0'', File ''[1,'' 1700000000000)
      \<notin> set (tempDir (fst (cleanupTempFiles 1700003600001 two_chunks)))"
    by (simp add: two_chunks_eq cleanupTempFiles_def readdir_def stat_def unlink_def oneHour_def)
  then show ?thesis
    using sweep_threshold_is_strict
      [of two_chunks "''chunk_1700000000000_0''" "File ''[1,'' 1700000000000" 1700003600000]
    by (simp add: two_chunks_eq oneHour_def)
qed

subsection \<open>The sweep: a delete that fails\<close>

text \<open>
  The claim C8, that a failing delete does not keep the run from examining and deleting
  the remaining entries, does not hold: the \<^verbatim>\<open>try\<close> encloses the whole loop. Here the
  subdirectory \<^verbatim>\<open>archive\<close> is listed first, as byte order has it; \<^verbatim>\<open>fs.unlink\<close> fails
  on it, the error is logged, and the run ends with the directory unchanged: both chunks
  listed after it stay although they are two hours old.
\<close>

theorem sweep_failure_isolated_counterexample:
  "sorted (readdir (tempDir archive_before_chunks)) \<and>
   of_int 1700007200000 - mtimeMs (File ''[1,'' 1700000000000) > oneHour \<and>
   of_int 1700007200000 - mtimeMs (File ''2]'' 1700000001000) > oneHour \<and>
   cleanupTempFiles 1700007200000 archive_before_chunks
     = (archive_before_chunks, Some EISDIR)"
  by code_simp

text \<open>
  C8, as the code has it. When \<^verbatim>\<open>fs.unlink\<close> fails on an entry (an old subdirectory), the
  failure is logged and ends the run without propagating: the old files listed before
  that entry have been deleted, the entry itself and all entries listed after it are
  left as they were.
\<close>

theorem sweep_failure_ends_run:
  assumes "tempDir fs = pre @ (name, Dir m) # post"
      and "distinct (map fst (tempDir fs))"
      and "of_int now - m > oneHour"
      and "\<forall>(n, e) \<in> set pre. of_int now - mtimeMs e > oneHour \<longrightarrow> is_File e"
  shows "cleanupTempFiles now fs =
           (fs\<lparr>tempDir := filter (\<lambda>(n, e). \<not> of_int now - mtimeMs e > oneHour) pre
                            @ (name, Dir m) # post\<rparr>,
            Some (EISDIR))"
proof -
  let ?d = "tempDir fs"
  let ?keep = "\<lambda>(n, e). \<not> (n \<in> set (map fst pre) \<and> of_int now - mtimeMs e > oneHour)"
  have files: "readdir ?d = map fst pre @ name # map fst post"
    using assms(1) by (simp add: readdir_def)
  have dist: "distinct (map fst pre)" "name \<notin> fst ` set pre" "name \<notin> fst ` set post"
    "fst ` set pre \<inter> fst ` set post = {}"
    using assms(1,2) by auto
  have disj: "fst ` set pre \<inter> fst ` set ((name, Dir m) # post) = {}"
    using assms(1,2) by auto
  have files_ok: "\<forall>(n, e) \<in> set ?d. n \<in> set (map fst pre) \<longrightarrow>
      of_int now - mtimeMs e > oneHour \<longrightarrow> is_File e"
  proof (clarify)
    fix n e
    assume ne: "(n, e) \<in> set ?d" and n: "n \<in> set (map fst pre)"
      and old: "of_int now - mtimeMs e > oneHour"
    have "(n, e) \<notin> set ((name, Dir m) # post)"
    proof
      assume "(n, e) \<in> set ((name, Dir m) # post)"
      then have "n \<in> fst ` set ((name, Dir m) # post)" by force
      then show False using n disj by auto
    qed
    then have "(n, e) \<in> set pre" using ne assms(1) by auto
    then show "is_File e" using assms(4) old by auto
  qed
  have pre: "cleanupLoop now ?d (map fst pre) = (filter ?keep ?d, None)"
    using assms(2) dist(1) files_ok
  proof (intro cleanupLoop_all)
    show "set (map fst pre) \<subseteq> fst ` set ?d" using assms(1) by auto
  qed
  have "filter ?keep ?d = filter ?keep pre @ filter ?keep ((name, Dir m) # post)"
    using assms(1) by simp
  moreover have "filter ?keep ((name, Dir m) # post) = (name, Dir m) # post"
  proof (intro filter_True ballI)
    fix x assume "x \<in> set ((name, Dir m) # post)"
    then have "fst x \<in> fst ` set ((name, Dir m) # post)" by (rule imageI)
    then have "fst x \<notin> fst ` set pre" using disj by auto
    then show "?keep x" by (cases x) simp
  qed
  moreover have "filter ?keep pre = filter (\<lambda>(n, e). \<not> of_int now - mtimeMs e > oneHour) pre"
    by (intro filter_cong) (force)+
  ultimately have d': "filter ?keep ?d =
      filter (\<lambda>(n, e). \<not> of_int now - mtimeMs e > oneHour) pre @ (name, Dir m) # post"
    by simp
  let ?d' = "filter (\<lambda>(n, e). \<not> of_int now - mtimeMs e > oneHour) pre @ (name, Dir m) # post"
  have "(name, Dir m) \<in> set ?d'" by simp
  moreover have "distinct (map fst ?d')"
    using assms(2) d' [symmetric] by (simp only: distinct_filter_keys)
  ultimately have mo: "map_of ?d' name = Some (Dir m)"
    by (rule map_of_entry [rotated])
  then have "cleanupLoop now ?d' (name # map fst post) = (?d', Some (EISDIR))"
    using assms(3) by (simp add: stat_def unlink_Dir)
  then show ?thesis
    using pre d' files by (simp add: cleanupTempFiles_def cleanupLoop_append)
qed

theorem sweep_failure_ends_run_witness:
  "sorted (readdir (tempDir parts_between_chunks)) \<and>
   tempDir parts_between_chunks =
     [(''chunk_1700000000000_0'', File ''[1,'' 1700000000000)]
       @ (''chunk_1700000000000_0.parts'', Dir 1700000000000)
       # [(''chunk_1700000000000_1'', File ''2]'' 1700000000000)] \<and>
   distinct (map fst (tempDir parts_between_chunks)) \<and>
   of_int 1700007200000 - 1700000000000 > oneHour \<and>
   cleanupTempFiles 1700007200000 parts_between_chunks =
     (parts_between_chunks\<lparr>tempDir :=
        [(''chunk_1700000000000_0.parts'', Dir 1700000000000),
         (''chunk_1700000000000_1'', File ''2]'' 1700000000000)]\<rparr>,
      Some EISDIR)"
proof -
  have listed: "sorted (readdir (tempDir parts_between_chunks))"
    by code_simp
  show ?thesis
    using listed sweep_failure_ends_run
      [of parts_between_chunks "[(''chunk_1700000000000_0'', File ''[1,'' 1700000000000)]"
          "''chunk_1700000000000_0.parts''" 1700000000000
          "[(''chunk_1700000000000_1'', File ''2]'' 1700000000000)]" 1700007200000]
    by (simp add: parts_between_chunks_def oneHour_def)
qed

subsection \<open>Reading, writing and the latest file\<close>


lemma writeFile_ok:
  "\<forall>m. map_of d n \<noteq> Some (Dir m) \<Longrightarrow>
   writeFile now d n text = Inr (AList.update n (File text (of_int now)) d)"
  by (auto simp: writeFile_def split: option.splits node.splits)















lemma future_backup_eq:
  "future_backup =
     \<lparr>tempDir = [],
      backupsDir = [(''backup_2100-01-01T00-00-00-000Z.json'', File ''null'' 1700000001000)]\<rparr>"
  by code_simp



subsection \<open>\<^verbatim>\<open>GET /api/backup\<close>\<close>





subsection \<open>\<^verbatim>\<open>POST /api/backup\<close>, then \<^verbatim>\<open>GET /api/backup\<close>\<close>




subsection \<open>\<^verbatim>\<open>POST /api/backup/combine\<close>\<close>

lemma readFile_Inr: "readFile d n = Inr c \<Longrightarrow> \<exists>m. map_of d n = Some (File c m)"
  by (auto simp: readFile_def split: option.splits node.splits)

lemma readFile_filter_other:
  "n \<noteq> k \<Longrightarrow> readFile (filter (\<lambda>p. fst p \<noteq> k) d) n = readFile d n"
  using map_of_delete [of n k d] by (simp add: readFile_def delete_as_filter)

lemma combineLoop_all:
  "distinct ids \<Longrightarrow> map (readFile d) ids = map Inr texts \<Longrightarrow>
   combineLoop d ids combinedData =
     (filter (\<lambda>p. fst p \<notin> set ids) d, Inr (combinedData @ concat texts))"
proof (induction ids arbitrary: d texts combinedData)
  case Nil
  then show ?case by simp
next
  case (Cons cid cids)
  from Cons.prems(2) obtain c cs where texts: "texts = c # cs"
    and c: "readFile d cid = Inr c" and cs: "map (readFile d) cids = map Inr cs"
    by (cases texts) auto
  from c obtain m where "map_of d cid = Some (File c m)"
    by (auto dest: readFile_Inr)
  then have unl: "unlink d cid = Inr (filter (\<lambda>p. fst p \<noteq> cid) d)"
    by (rule unlink_File)
  let ?d' = "filter (\<lambda>p. fst p \<noteq> cid) d"
  have "map (readFile ?d') cids = map (readFile d) cids"
    using Cons.prems(1) by (intro map_cong refl readFile_filter_other) auto
  then have "combineLoop ?d' cids (combinedData @ c) =
      (filter (\<lambda>p. fst p \<notin> set cids) ?d', Inr ((combinedData @ c) @ concat cs))"
    using Cons.prems(1) cs by (intro Cons.IH) simp_all
  moreover have "filter (\<lambda>p. fst p \<notin> set cids) ?d' = filter (\<lambda>p. fst p \<notin> set (cid # cids)) d"
    by (simp add: conj_commute)
  ultimately show ?case using c unl texts by simp
qed

text \<open>
  C6. With an empty list of chunk ids the loop does nothing, \<open>combinedData\<close> stays the
  empty string, \<^verbatim>\<open>JSON.parse('')\<close> throws, and the handler answers with the failure
  envelope of its \<^verbatim>\<open>catch\<close>: both directories are as before, so no backup, empty or
  not, has been written. That \<^verbatim>\<open>JSON.parse\<close> rejects the empty string is the runtime's
  part.
\<close>

theorem combine_no_chunks:
  assumes "JSON_parse rt [] = None"
  shows "post_backup_combine rt now fs \<lparr>chunkIds = [], combine_timestamp = ts\<rparr>
           = (fs, json_message 500 False ''Failed to combine chunks'')"
  using assms by (simp add: post_backup_combine_def)

theorem combine_no_chunks_witness:
  "JSON_parse node_runtime [] = None \<and>
   post_backup_combine node_runtime 1700007000000 two_chunks
       \<lparr>chunkIds = [], combine_timestamp = 1700000000000\<rparr>
     = (two_chunks, json_message 500 False ''Failed to combine chunks'')"
proof -
  have h: "JSON_parse node_runtime [] = None" by code_simp
  show ?thesis using combine_no_chunks [OF h] h by simp
qed

text \<open>
  C2. The ids are distinct and each names a chunk file, so that the loop reads the texts
  one after the other; their concatenation does not parse. Then the handler answers with
  the failure envelope, the backup directory is unchanged, and every chunk the request
  named is gone from the temp directory: nothing is restored.
\<close>

theorem combine_parse_failure:
  assumes "distinct ids"
      and "map (readFile (tempDir fs)) ids = map Inr texts"
      and "JSON_parse rt (concat texts) = None"
  shows "post_backup_combine rt now fs \<lparr>chunkIds = ids, combine_timestamp = ts\<rparr>
           = (fs\<lparr>tempDir := filter (\<lambda>p. fst p \<notin> set ids) (tempDir fs)\<rparr>,
              json_message 500 False ''Failed to combine chunks'')"
  using assms combineLoop_all [OF assms(1,2), of "[]"]
  by (simp add: post_backup_combine_def)

theorem combine_parse_failure_witness:
  "map (readFile (tempDir broken_chunks)) [''chunk_1700000000000_0'', ''chunk_1700000000000_1'']
     = map Inr [''[1,'', ''2''] \<and>
   JSON_parse node_runtime (concat [''[1,'', ''2'']) = None \<and>
   post_backup_combine node_runtime 1700000003000 broken_chunks
       \<lparr>chunkIds = [''chunk_1700000000000_0'', ''chunk_1700000000000_1''],
        combine_timestamp = 1700000000000\<rparr>
     = (broken_chunks\<lparr>tempDir := [(''chunk_1700000009999_0'', File ''{}'' 1700000002000)]\<rparr>,
        json_message 500 False ''Failed to combine chunks'')"
proof -
  have d: "distinct [''chunk_1700000000000_0'', ''chunk_1700000000000_1'']" by simp
  have r: "map (readFile (tempDir broken_chunks))
      [''chunk_1700000000000_0'', ''chunk_1700000000000_1''] = map Inr [''[1,'', ''2'']"
    by (simp add: broken_chunks_def readFile_def)
  have p: "JSON_parse node_runtime (concat [''[1,'', ''2'']) = None" by code_simp
  show ?thesis
    using combine_parse_failure [OF d r p, of 1700000003000 1700000000000] r p
    by (simp add: broken_chunks_def)
qed

text \<open>
  The claim C1 speaks of every list of chunk ids and every timestamp. It fails for a
  timestamp beyond the range of \<^verbatim>\<open>Date\<close>: the two chunks are read and deleted, their
  concatenation \<^verbatim>\<open>[1,2]\<close> parses, \<^verbatim>\<open>toISOString\<close> throws, and the answer is the failure
  envelope with no backup written. It also fails for a list that names a chunk twice:
  the second read finds the chunk deleted.
\<close>

theorem combine_success_counterexample:
  "map (readFile (tempDir two_chunks)) [''chunk_1700000000000_0'', ''chunk_1700000000000_1'']
     = map Inr [''[1,'', ''2]''] \<and>
   JSON_parse node_runtime (''[1,'' @ ''2]'') = Some (JArr [JNum 1, JNum 2]) \<and>
   post_backup_combine node_runtime 1700007000000 two_chunks
       \<lparr>chunkIds = [''chunk_1700000000000_0'', ''chunk_1700000000000_1''],
        combine_timestamp = 8640000000000001\<rparr>
     = (no_files, json_message 500 False ''Failed to combine chunks'') \<and>
   post_backup_combine node_runtime 1700007000000 two_chunks
       \<lparr>chunkIds = [''chunk_1700000000000_0'', ''chunk_1700000000000_0''],
        combine_timestamp = 1700000000000\<rparr>
     = (two_chunks\<lparr>tempDir := [(''chunk_1700000000000_1'', File ''2]'' 1700006840000)]\<rparr>,
        json_message 500 False ''Failed to combine chunks'')"
  by code_simp

text \<open>
  C1, as the code has it. For distinct ids that each name a chunk file and a timestamp
  from which \<^verbatim>\<open>new Date\<close> builds a valid date \<open>t\<close>: the handler parses the concatenation
  of the chunk texts in the order of the ids, with nothing between them; when that parses
  to \<open>doc\<close> and the name of the backup is not taken by a directory, the chunks named are
  gone from the temp directory, the backup directory holds
  \<^verbatim>\<open>JSON.stringify(doc, null, 2)\<close> under \<^verbatim>\<open>backup_\<close> followed by the ISO string of \<open>t\<close> with
  each colon and dot replaced by a dash and by \<^verbatim>\<open>.json\<close>, and the answer is status 200
  with \<^verbatim>\<open>success: true\<close> and the message \<^verbatim>\<open>Backup saved successfully\<close>, without any
  other field.
\<close>

theorem combine_success:
  assumes "distinct ids"
      and "map (readFile (tempDir fs)) ids = map Inr texts"
      and "JSON_parse rt (concat texts) = Some doc"
      and "Date_new rt ts = Some t"
      and "\<forall>m. map_of (backupsDir fs) (''backup_'' @ replace_colon_dot (toISOString rt t) @ ''.json'')
             \<noteq> Some (Dir m)"
  shows "post_backup_combine rt now fs \<lparr>chunkIds = ids, combine_timestamp = ts\<rparr>
           = (fs\<lparr>tempDir := filter (\<lambda>p. fst p \<notin> set ids) (tempDir fs),
                 backupsDir :=
                   AList.update (''backup_'' @ replace_colon_dot (toISOString rt t) @ ''.json'')
                     (File (JSON_stringify rt doc) (of_int now)) (backupsDir fs)\<rparr>,
              json_message 200 True ''Backup saved successfully'')"
proof -
  have w: "writeFile now (backupsDir fs) (backup_filename (toISOString rt t))
      (JSON_stringify rt doc)
      = Inr (AList.update (backup_filename (toISOString rt t))
              (File (JSON_stringify rt doc) (of_int now)) (backupsDir fs))"
    using assms(5) by (intro writeFile_ok) (simp add: backup_filename_def)
  show ?thesis
    using assms(3,4) w combineLoop_all [OF assms(1,2), of "[]"]
    by (simp add: post_backup_combine_def backup_filename_def)
qed

theorem combine_success_witness:
  "map (readFile (tempDir two_chunks)) [''chunk_1700000000000_0'', ''chunk_1700000000000_1'']
     = map Inr [''[1,'', ''2]''] \<and>
   JSON_parse node_runtime (concat [''[1,'', ''2]'']) = Some (JArr [JNum 1, JNum 2]) \<and>
   Date_new node_runtime 1700000000000 = Some 1700000000000 \<and>
   ''backup_'' @ replace_colon_dot (toISOString node_runtime 1700000000000) @ ''.json''
     = ''backup_2023-11-14T22-13-20-000Z.json'' \<and>
   post_backup_combine node_runtime 1700007000000 two_chunks
       \<lparr>chunkIds = [''chunk_1700000000000_0'', ''chunk_1700000000000_1''],
        combine_timestamp = 1700000000000\<rparr>
     = (\<lparr>tempDir = [],
         backupsDir = [(''backup_2023-11-14T22-13-20-000Z.json'',
                        File (JSON_stringify node_runtime (JArr [JNum 1, JNum 2])) 1700007000000)]\<rparr>,
        json_message 200 True ''Backup saved successfully'')"
proof -
  have d: "distinct [''chunk_1700000000000_0'', ''chunk_1700000000000_1'']" by simp
  have r: "map (readFile (tempDir two_chunks))
      [''chunk_1700000000000_0'', ''chunk_1700000000000_1''] = map Inr [''[1,'', ''2]'']"
    by (simp add: two_chunks_eq readFile_def)
  have p: "JSON_parse node_runtime (concat [''[1,'', ''2]'']) = Some (JArr [JNum 1, JNum 2])"
    by code_simp
  have t: "Date_new node_runtime 1700000000000 = Some 1700000000000"
    by (simp add: node_runtime_def)
  have n: "''backup_'' @ replace_colon_dot (toISOString node_runtime 1700000000000) @ ''.json''
     = ''backup_2023-11-14T22-13-20-000Z.json''"
    by code_simp
  have w: "\<forall>m. map_of (backupsDir two_chunks)
      (''backup_'' @ replace_colon_dot (toISOString node_runtime 1700000000000) @ ''.json'')
      \<noteq> Some (Dir m)"
    by (simp add: two_chunks_eq)
  show ?thesis
    using combine_success [OF d r p t w, of 1700007000000] r p t n
    by (simp add: two_chunks_eq)
qed

subsection \<open>\<^verbatim>\<open>POST /api/backup/chunk\<close>\<close>



end
